theory Spec2Isabelle
  imports Complex_Main
begin

section \<open>Python values shared by the scripts\<close>

text \<open>
  The scripts of the repository are sequences of calls into SimpleITK, VTK, numpy and
  nibabel. Each script function is embedded as a HOL function with the same name and the
  same order of checks and calls. An exception is a value: a function that can raise
  returns \<open>py_exn + 'a\<close>, with \<open>Inl\<close> for the exception and the message it
  carries. Intensities and coordinates are real numbers; the rounding of floating-point
  arithmetic is outside the model. The \<open>print\<close> calls that only log progress do
  not influence data or control flow and are left out, except in
  \<open>validate_file\<close>, whose printed line is its error report.
\<close>

datatype py_exn =
    FileNotFoundError string
  | ValueError string
  | RuntimeError string
  | AttributeError string
  | IndexError string



text \<open>
  A file system maps a path to what is stored there. \<open>os.path.exists\<close> holds for
  files and directories, \<open>os.path.isfile\<close> for files only.
\<close>

datatype 'c node = File 'c | Directory

type_synonym 'c filesystem = "string \<rightharpoonup> 'c node"

definition os_path_exists :: "'c filesystem \<Rightarrow> string \<Rightarrow> bool" where
  "os_path_exists fs p = (fs p \<noteq> None)"

definition os_path_isfile :: "'c filesystem \<Rightarrow> string \<Rightarrow> bool" where
  "os_path_isfile fs p = (case fs p of Some (File c) \<Rightarrow> True | Some Directory \<Rightarrow> False | None \<Rightarrow> False)"



section \<open>VTK data objects\<close>

type_synonym point = "real \<times> real \<times> real"

record vtkDataArray =
  array_name :: string
  tuples :: "real list"

record vtkImageData =
  grid_points :: "point list"
  image_scalars :: "vtkDataArray option"

record vtkPolyData =
  points :: "point list"
  polys :: "nat list list"
  point_scalars :: "vtkDataArray option"

definition GetNumberOfPoints :: "vtkPolyData \<Rightarrow> nat" where
  "GetNumberOfPoints pd = length (points pd)"

text \<open>What a file of the VTK scripts holds: a NIfTI volume, or a surface as written by
  one of the two polydata writers.\<close>

datatype vtk_file =
    NiftiVolume vtkImageData
  | LegacyPolyData vtkPolyData
  | StlMesh vtkPolyData

definition empty_image :: vtkImageData where
  "empty_image = \<lparr>grid_points = [], image_scalars = None\<rparr>"


text \<open>
  The routines of VTK that the scripts call and that are not modelled further are
  parameters, collected in one record: the range of a data array, marching cubes, the mesh
  filters, the point locator and the array accessor. The last two may raise:
  \<open>FindClosestPoint vtk dataset p\<close> is the locator built on \<open>dataset\<close> queried
  at \<open>p\<close>, \<open>GetTuple1 vtk a idx\<close> the component of array \<open>a\<close> at index
  \<open>idx\<close>.
\<close>

record vtk_library =
  GetRange :: "vtkDataArray \<Rightarrow> real \<times> real"
  vtkMarchingCubes :: "vtkImageData \<Rightarrow> real \<Rightarrow> vtkPolyData"
  vtkSmoothPolyDataFilter :: "vtkPolyData \<Rightarrow> nat \<Rightarrow> real \<Rightarrow> vtkPolyData"
  vtkFillHolesFilter :: "vtkPolyData \<Rightarrow> real \<Rightarrow> vtkPolyData"
  vtkConnectivityFilter :: "vtkPolyData \<Rightarrow> vtkPolyData"
  vtkWindowedSincPolyDataFilter :: "vtkPolyData \<Rightarrow> nat \<Rightarrow> real \<Rightarrow> vtkPolyData"
  FindClosestPoint :: "vtkImageData \<Rightarrow> point \<Rightarrow> py_exn + int"
  GetTuple1 :: "vtkDataArray \<Rightarrow> int \<Rightarrow> py_exn + real"

section \<open>surface\_reconstruction.py\<close>

subsection \<open>The threshold filter\<close>

text \<open>
  \<open>vtkImageThreshold\<close> as the library documents it: a voxel inside
  \<open>[LowerThreshold, UpperThreshold]\<close> is replaced by \<open>InValue\<close> when
  \<open>ReplaceIn\<close> is on, a voxel outside by \<open>OutValue\<close> when \<open>ReplaceOut\<close> is
  on, and is copied otherwise. \<open>SetInValue\<close> and \<open>SetOutValue\<close> switch the
  corresponding replacement on. The filter object carries its settings, its input
  connection and, after \<open>Update\<close>, its output.
\<close>

record vtkImageThreshold =
  thr_input :: "vtkImageData option"
  LowerThreshold :: real
  UpperThreshold :: real
  ReplaceIn :: bool
  InValue :: real
  ReplaceOut :: bool
  OutValue :: real
  thr_output :: vtkImageData

definition VTK_FLOAT_MAX :: real where
  "VTK_FLOAT_MAX = 340282346638528859811704183484516925440"

definition vtkImageThreshold_new :: vtkImageThreshold where
  "vtkImageThreshold_new =
     \<lparr>thr_input = None, LowerThreshold = - VTK_FLOAT_MAX, UpperThreshold = VTK_FLOAT_MAX,
      ReplaceIn = False, InValue = 0, ReplaceOut = False, OutValue = 0,
      thr_output = empty_image\<rparr>"

definition SetInputConnection :: "vtkImageData \<Rightarrow> vtkImageThreshold \<Rightarrow> vtkImageThreshold" where
  "SetInputConnection img t = t\<lparr>thr_input := Some img\<rparr>"

definition ThresholdBetween :: "real \<Rightarrow> real \<Rightarrow> vtkImageThreshold \<Rightarrow> vtkImageThreshold" where
  "ThresholdBetween lower upper t = t\<lparr>LowerThreshold := lower, UpperThreshold := upper\<rparr>"

definition ReplaceInOn :: "vtkImageThreshold \<Rightarrow> vtkImageThreshold" where
  "ReplaceInOn t = t\<lparr>ReplaceIn := True\<rparr>"

definition ReplaceOutOn :: "vtkImageThreshold \<Rightarrow> vtkImageThreshold" where
  "ReplaceOutOn t = t\<lparr>ReplaceOut := True\<rparr>"

definition SetInValue :: "real \<Rightarrow> vtkImageThreshold \<Rightarrow> vtkImageThreshold" where
  "SetInValue v t = t\<lparr>InValue := v, ReplaceIn := True\<rparr>"

definition SetOutValue :: "real \<Rightarrow> vtkImageThreshold \<Rightarrow> vtkImageThreshold" where
  "SetOutValue v t = t\<lparr>OutValue := v, ReplaceOut := True\<rparr>"

definition threshold_voxel :: "vtkImageThreshold \<Rightarrow> real \<Rightarrow> real" where
  "threshold_voxel t v =
     (if LowerThreshold t \<le> v \<and> v \<le> UpperThreshold t
      then (if ReplaceIn t then InValue t else v)
      else (if ReplaceOut t then OutValue t else v))"

definition threshold_image :: "vtkImageThreshold \<Rightarrow> vtkImageData \<Rightarrow> vtkImageData" where
  "threshold_image t img =
     img\<lparr>image_scalars :=
       (case image_scalars img of
          None \<Rightarrow> None
        | Some a \<Rightarrow> Some (a\<lparr>tuples := map (threshold_voxel t) (tuples a)\<rparr>))\<rparr>"

definition Update :: "vtkImageThreshold \<Rightarrow> vtkImageThreshold" where
  "Update t =
     (case thr_input t of
        None \<Rightarrow> t
      | Some img \<Rightarrow> t\<lparr>thr_output := threshold_image t img\<rparr>)"

text \<open>
  The NIfTI reader of VTK does not raise: for a path it cannot read it reports the error
  on VTK's own channel and its output stays empty.
\<close>

record vtkNIFTIImageReader =
  FileName :: string
  reader_output :: vtkImageData

definition vtkNIFTIImageReader_read :: "vtk_file filesystem \<Rightarrow> string \<Rightarrow> vtkNIFTIImageReader" where
  "vtkNIFTIImageReader_read fs file_path =
     \<lparr>FileName = file_path,
      reader_output =
        (case fs file_path of
           Some (File (NiftiVolume img)) \<Rightarrow> img
         | _ \<Rightarrow> empty_image)\<rparr>"

definition load_nifti :: "vtk_file filesystem \<Rightarrow> string \<Rightarrow> vtkNIFTIImageReader" where
  "load_nifti fs file_path = vtkNIFTIImageReader_read fs file_path"

definition segment_data :: "vtkNIFTIImageReader \<Rightarrow> real \<Rightarrow> real \<Rightarrow> vtkImageThreshold" where
  "segment_data reader lower_threshold upper_threshold =
     (let threshold = vtkImageThreshold_new;
          threshold = SetInputConnection (reader_output reader) threshold;
          threshold = ThresholdBetween lower_threshold upper_threshold threshold;
          threshold = ReplaceInOn threshold;
          threshold = SetInValue 1 threshold;
          threshold = ReplaceOutOn threshold;
          threshold = SetOutValue 0 threshold;
          threshold = Update threshold
      in threshold)"

subsection \<open>Isovalue and surface\<close>


definition generate_surface :: "vtk_library \<Rightarrow> vtkImageThreshold \<Rightarrow> real \<Rightarrow> py_exn + vtkPolyData" where
  "generate_surface vtk threshold isovalue =
     (let polydata = vtkMarchingCubes vtk (thr_output threshold) isovalue
      in if GetNumberOfPoints polydata = 0
         then Inl (ValueError ''[ERROR] No surface was generated! Check thresholds or isovalue.'')
         else Inr polydata)"

subsection \<open>Export\<close>


section \<open>align\_brain\_t1\_surface.py\<close>

definition load_t1_image :: "vtk_file filesystem \<Rightarrow> string \<Rightarrow> py_exn + vtkNIFTIImageReader" where
  "load_t1_image fs file_path =
     (if \<not> os_path_exists fs file_path
      then Inl (FileNotFoundError (''[ERROR] File not found: '' @ file_path))
      else Inr (vtkNIFTIImageReader_read fs file_path))"


section \<open>map\_fmri\_and\_brain.py\<close>

definition load_fmri_image :: "vtk_file filesystem \<Rightarrow> string \<Rightarrow> py_exn + vtkNIFTIImageReader" where
  "load_fmri_image fs file_path =
     (if \<not> os_path_exists fs file_path
      then Inl (FileNotFoundError (''[ERROR] fMRI file not found: '' @ file_path))
      else
        (let reader = vtkNIFTIImageReader_read fs file_path
         in if image_scalars (reader_output reader) = None
            then Inl (ValueError ''[ERROR] fMRI image does not contain scalar data.'')
            else Inr reader))"







section \<open>gui\_visualization.py\<close>







section \<open>visualize\_validate.py\<close>

text \<open>\<open>validate_file\<close> reports a missing file on the console and returns
  \<open>False\<close>; the second component is what it printed.\<close>

definition validate_file :: "'c filesystem \<Rightarrow> string \<Rightarrow> bool \<times> string list" where
  "validate_file fs filepath =
     (if \<not> os_path_isfile fs filepath
      then (False, [''[ERROR] File not found: '' @ filepath])
      else (True, []))"

text \<open>Loading with nibabel (or MNE) and plotting are library calls: the parameter
  \<open>load_and_plot\<close> stands for everything after the existence check. Each function
  returns its outcome and the lines printed by \<open>validate_file\<close>.\<close>

definition visualize_t1 ::
  "('c \<Rightarrow> py_exn + unit) \<Rightarrow> 'c filesystem \<Rightarrow> string \<Rightarrow> (py_exn + unit) \<times> string list" where
  "visualize_t1 load_and_plot fs filepath =
     (let (ok, printed) = validate_file fs filepath
      in if \<not> ok then (Inr (), printed)
         else (case fs filepath of
                 Some (File c) \<Rightarrow> (load_and_plot c, printed)
               | _ \<Rightarrow> (Inl (FileNotFoundError filepath), printed)))"

definition visualize_fmri ::
  "('c \<Rightarrow> py_exn + unit) \<Rightarrow> 'c filesystem \<Rightarrow> string \<Rightarrow> (py_exn + unit) \<times> string list" where
  "visualize_fmri load_and_plot fs filepath =
     (let (ok, printed) = validate_file fs filepath
      in if \<not> ok then (Inr (), printed)
         else (case fs filepath of
                 Some (File c) \<Rightarrow> (load_and_plot c, printed)
               | _ \<Rightarrow> (Inl (FileNotFoundError filepath), printed)))"

definition visualize_eeg ::
  "('c \<Rightarrow> py_exn + unit) \<Rightarrow> 'c filesystem \<Rightarrow> string \<Rightarrow> (py_exn + unit) \<times> string list" where
  "visualize_eeg load_and_plot fs filepath =
     (let (ok, printed) = validate_file fs filepath
      in if \<not> ok then (Inr (), printed)
         else (case fs filepath of
                 Some (File c) \<Rightarrow> (load_and_plot c, printed)
               | _ \<Rightarrow> (Inl (FileNotFoundError filepath), printed)))"

section \<open>SimpleITK images and numpy arrays\<close>

text \<open>
  A voxel is a finite number or \<open>NaN\<close>. numpy does not raise on a division by zero:
  \<open>0 / 0\<close> is \<open>nan\<close> (with a warning), and \<open>nan\<close> spreads through
  arithmetic, through \<open>min\<close> and \<open>max\<close>, and makes every comparison false. For a
  non-zero numerator numpy yields an infinity instead; the one array division modelled
  here, in \<open>check_and_normalize_intensity\<close>, divides \<open>x - min\<close> by
  \<open>max - min\<close> of the same array, so a zero divisor meets zero numerators only.
\<close>

datatype np_float = Fin real | NaN

fun np_sub :: "np_float \<Rightarrow> np_float \<Rightarrow> np_float" where
  "np_sub (Fin a) (Fin b) = Fin (a - b)"
| "np_sub a b = NaN"

fun np_add :: "np_float \<Rightarrow> np_float \<Rightarrow> np_float" where
  "np_add (Fin a) (Fin b) = Fin (a + b)"
| "np_add a b = NaN"

fun np_mul :: "np_float \<Rightarrow> np_float \<Rightarrow> np_float" where
  "np_mul (Fin a) (Fin b) = Fin (a * b)"
| "np_mul a b = NaN"

fun np_div :: "np_float \<Rightarrow> np_float \<Rightarrow> np_float" where
  "np_div (Fin a) (Fin b) = (if b = 0 then NaN else Fin (a / b))"
| "np_div a b = NaN"

fun np_le :: "np_float \<Rightarrow> np_float \<Rightarrow> bool" where
  "np_le (Fin a) (Fin b) = (a \<le> b)"
| "np_le a b = False"


fun np_minimum :: "np_float \<Rightarrow> np_float \<Rightarrow> np_float" where
  "np_minimum (Fin a) (Fin b) = Fin (min a b)"
| "np_minimum a b = NaN"

fun np_maximum :: "np_float \<Rightarrow> np_float \<Rightarrow> np_float" where
  "np_maximum (Fin a) (Fin b) = Fin (max a b)"
| "np_maximum a b = NaN"

text \<open>\<open>ndarray.min()\<close> and \<open>ndarray.max()\<close>: a \<open>ValueError\<close> on an array
  without elements.\<close>

fun ndarray_min :: "np_float list \<Rightarrow> py_exn + np_float" where
  "ndarray_min [] = Inl (ValueError ''zero-size array to reduction operation minimum which has no identity'')"
| "ndarray_min (x # xs) = Inr (foldl np_minimum x xs)"

fun ndarray_max :: "np_float list \<Rightarrow> py_exn + np_float" where
  "ndarray_max [] = Inl (ValueError ''zero-size array to reduction operation maximum which has no identity'')"
| "ndarray_max (x # xs) = Inr (foldl np_maximum x xs)"

datatype pixel_id = sitkUInt8 | sitkInt16 | sitkFloat32 | sitkFloat64

text \<open>An image: its voxels (in array order), its extent along each axis, its pixel type
  and its spatial metadata. The direction matrix is stored row by row. A variable that
  the scripts call \<open>image\<close> is written \<open>img\<close> here, \<open>image\<close> being
  a constant of HOL.\<close>

record sitk_image =
  pixels :: "np_float list"
  image_size :: "nat list"
  pixel_type :: pixel_id
  direction :: "real list"
  spacing :: "real list"
  origin :: "real list"

definition GetArrayFromImage :: "sitk_image \<Rightarrow> np_float list" where
  "GetArrayFromImage img = pixels img"

definition identity_direction :: "nat \<Rightarrow> real list" where
  "identity_direction d = concat (map (\<lambda>i. map (\<lambda>j. if i = j then 1 else 0) [0..<d]) [0..<d])"

text \<open>\<open>sitk.GetImageFromArray\<close> builds an image from the voxel array alone: the
  metadata of the new image are the library defaults (identity direction, unit spacing,
  zero origin), in the dimension of the array.\<close>

definition GetImageFromArray :: "np_float list \<Rightarrow> nat list \<Rightarrow> sitk_image" where
  "GetImageFromArray arr shape =
     \<lparr>pixels = arr, image_size = shape, pixel_type = sitkFloat64,
      direction = identity_direction (length shape),
      spacing = replicate (length shape) 1,
      origin = replicate (length shape) 0\<rparr>"

definition ReadImage :: "sitk_image filesystem \<Rightarrow> string \<Rightarrow> py_exn + sitk_image" where
  "ReadImage fs file_path =
     (case fs file_path of
        Some (File img) \<Rightarrow> Inr img
      | _ \<Rightarrow> Inl (RuntimeError file_path))"

definition WriteImage :: "sitk_image filesystem \<Rightarrow> sitk_image \<Rightarrow> string \<Rightarrow> sitk_image filesystem" where
  "WriteImage fs img output_path = fs(output_path \<mapsto> File img)"

section \<open>preprocess\_t1.py\<close>

text \<open>The image filters of SimpleITK are parameters of the model, collected in one
  record. The flag \<open>normalize\<close> of the two functions is written
  \<open>normalize'\<close>.\<close>

record sitk_filters =
  Cast :: "sitk_image \<Rightarrow> pixel_id \<Rightarrow> sitk_image"
  N4BiasFieldCorrection :: "sitk_image \<Rightarrow> sitk_image"
  RescaleIntensity :: "real \<Rightarrow> real \<Rightarrow> sitk_image \<Rightarrow> sitk_image"
  AdaptiveHistogramEqualization :: "sitk_image \<Rightarrow> sitk_image"
  Bilateral :: "sitk_image \<Rightarrow> real \<Rightarrow> real \<Rightarrow> sitk_image"

definition preprocess_t1 ::
  "sitk_filters \<Rightarrow> sitk_image filesystem \<Rightarrow> string \<Rightarrow> string \<Rightarrow> real \<Rightarrow> real \<Rightarrow> bool
     \<Rightarrow> py_exn + sitk_image filesystem" where
  "preprocess_t1 sitk fs file_path output_path domain_sigma range_sigma normalize' =
     (if \<not> os_path_exists fs file_path
      then Inl (FileNotFoundError (''[ERROR] File not found: '' @ file_path))
      else
        (case ReadImage fs file_path of
           Inl e \<Rightarrow> Inl e
         | Inr img \<Rightarrow>
             (let img = (if pixel_type img \<noteq> sitkFloat32
                           then Cast sitk img sitkFloat32 else img);
                  corrected_image = N4BiasFieldCorrection sitk img;
                  corrected_image = (if normalize'
                                     then RescaleIntensity sitk 0 255 corrected_image
                                     else corrected_image);
                  contrast_enhanced_image = AdaptiveHistogramEqualization sitk corrected_image;
                  smoothed_image = Bilateral sitk corrected_image domain_sigma range_sigma
              in Inr (WriteImage fs smoothed_image output_path))))"

definition preprocess_t1_with_validation ::
  "sitk_filters \<Rightarrow> sitk_image filesystem \<Rightarrow> string \<Rightarrow> string \<Rightarrow> real \<Rightarrow> real \<Rightarrow> bool
     \<Rightarrow> py_exn + sitk_image filesystem" where
  "preprocess_t1_with_validation sitk fs file_path output_path domain_sigma range_sigma normalize' =
     (if \<not> os_path_exists fs file_path
      then Inl (FileNotFoundError (''[ERROR] File not found: '' @ file_path))
      else
        (case ReadImage fs file_path of
           Inl e \<Rightarrow> Inl e
         | Inr img \<Rightarrow>
             (let img = (if pixel_type img \<noteq> sitkFloat32
                           then Cast sitk img sitkFloat32 else img);
                  corrected_image = N4BiasFieldCorrection sitk img;
                  smoothed_image = Bilateral sitk corrected_image domain_sigma range_sigma
              in Inr (WriteImage fs smoothed_image output_path))))"

section \<open>validate\_t1.py\<close>

definition check_and_normalize_intensity :: "sitk_image \<Rightarrow> real \<Rightarrow> real \<Rightarrow> py_exn + sitk_image" where
  "check_and_normalize_intensity img lower_bound upper_bound =
     (let img_array = GetArrayFromImage img
      in case ndarray_min img_array of
           Inl e \<Rightarrow> Inl e
         | Inr min_int \<Rightarrow>
             (case ndarray_max img_array of
                Inl e \<Rightarrow> Inl e
              | Inr max_int \<Rightarrow>
                  if \<not> (np_le (Fin lower_bound) min_int \<and> np_le max_int (Fin upper_bound))
                  then
                    (let normalized_array =
                           map (\<lambda>x. np_add
                                  (np_mul (np_div (np_sub x min_int) (np_sub max_int min_int))
                                     (Fin (upper_bound - lower_bound)))
                                  (Fin lower_bound)) img_array
                     in Inr (GetImageFromArray normalized_array (image_size img)))
                  else Inr img))"

text \<open>Indexing the direction tuple: an \<open>IndexError\<close> past its end.\<close>

definition tuple_index :: "real list \<Rightarrow> nat \<Rightarrow> py_exn + real" where
  "tuple_index xs i =
     (if i < length xs then Inr (xs ! i) else Inl (IndexError ''tuple index out of range''))"

definition check_orientation :: "sitk_image \<Rightarrow> string \<Rightarrow> py_exn + bool" where
  "check_orientation img view =
     (let dir = direction img
      in if view = ''axial''
         then (case tuple_index dir 8 of Inl e \<Rightarrow> Inl e | Inr d \<Rightarrow> Inr (d > 0))
         else if view = ''sagittal''
         then (case tuple_index dir 0 of Inl e \<Rightarrow> Inl e | Inr d \<Rightarrow> Inr (d > 0))
         else if view = ''coronal''
         then (case tuple_index dir 4 of Inl e \<Rightarrow> Inl e | Inr d \<Rightarrow> Inr (d > 0))
         else Inl (ValueError (''Unsupported view. Use: 'axial', 'sagittal', or 'coronal'' @ [CHR 0x27])))"

text \<open>
  The script's main block: read the image, normalize, check the orientation of the
  normalized image, check its edges. \<open>check_edge_clarity\<close> is numerical code over
  gradients and plots and enters as a parameter. The result is the pair of verdicts
  \<open>(is_oriented_correctly, are_edges_clear)\<close>.
\<close>

definition validate_t1_main ::
  "(sitk_image \<Rightarrow> py_exn + bool) \<Rightarrow> sitk_image filesystem \<Rightarrow> string \<Rightarrow> py_exn + bool \<times> bool" where
  "validate_t1_main check_edge_clarity fs t1_file_path =
     (case ReadImage fs t1_file_path of
        Inl e \<Rightarrow> Inl e
      | Inr img \<Rightarrow>
          (case check_and_normalize_intensity img 0 255 of
             Inl e \<Rightarrow> Inl e
           | Inr normalized_image \<Rightarrow>
               (case check_orientation normalized_image ''axial'' of
                  Inl e \<Rightarrow> Inl e
                | Inr is_oriented_correctly \<Rightarrow>
                    (case check_edge_clarity normalized_image of
                       Inl e \<Rightarrow> Inl e
                     | Inr are_edges_clear \<Rightarrow> Inr (is_oriented_correctly, are_edges_clear)))))"

section \<open>The main blocks of the surface and mapping scripts\<close>



subsection \<open>surface\_reconstruction.py\<close>








subsection \<open>map\_fmri\_and\_brain.py\<close>









text \<open>The scalar values an image carries, in point order (none when it has no scalar
  array).\<close>

definition scalar_values :: "vtkImageData \<Rightarrow> real list" where
  "scalar_values img = (case image_scalars img of None \<Rightarrow> [] | Some a \<Rightarrow> tuples a)"

section \<open>Specification vocabulary and concrete inputs\<close>




text \<open>A reader holding one voxel of intensity 45.\<close>

definition voxel45 :: vtkNIFTIImageReader where
  "voxel45 = \<lparr>FileName = ''t1.nii.gz'',
     reader_output = \<lparr>grid_points = [(0, 0, 0)],
        image_scalars = Some \<lparr>array_name = ''scalars'', tuples = [45]\<rparr>\<rparr>\<rparr>"

text \<open>Filters that return their input; the cast only changes the pixel type.\<close>

definition no_filters :: sitk_filters where
  "no_filters = \<lparr>Cast = (\<lambda>img t. img\<lparr>pixel_type := t\<rparr>), N4BiasFieldCorrection = (\<lambda>img. img),
     RescaleIntensity = (\<lambda>lo hi img. img), AdaptiveHistogramEqualization = (\<lambda>img. img),
     Bilateral = (\<lambda>img d r. img)\<rparr>"

text \<open>
  A small VTK: the locator fails with a \<open>RuntimeError\<close> left of the origin and
  otherwise returns grid point 1; the accessor reads the array within its bounds; the
  mesh filters return their input; marching cubes yields one point per scalar.
\<close>

definition toy_vtk :: vtk_library where
  "toy_vtk =
     \<lparr>GetRange = (\<lambda>a. (0, 1)),
      vtkMarchingCubes = (\<lambda>img isovalue. \<lparr>points = map (\<lambda>v. (v, 0, 0)) (scalar_values img),
                                              polys = [], point_scalars = None\<rparr>),
      vtkSmoothPolyDataFilter = (\<lambda>pd n r. pd),
      vtkFillHolesFilter = (\<lambda>pd h. pd),
      vtkConnectivityFilter = (\<lambda>pd. pd),
      vtkWindowedSincPolyDataFilter = (\<lambda>pd n r. pd),
      FindClosestPoint = (\<lambda>ds p. if fst p < 0 then Inl (RuntimeError ''no point found'') else Inr 1),
      GetTuple1 = (\<lambda>a idx. if 0 \<le> idx \<and> nat idx < length (tuples a)
                               then Inr (tuples a ! nat idx)
                               else Inl (RuntimeError ''index out of range''))\<rparr>"



text \<open>The threshold filter run on the one-voxel reader, and on the reader of a path
  that is not there (its output is empty).\<close>

definition toy_threshold :: vtkImageThreshold where
  "toy_threshold = segment_data voxel45 30 60"

definition empty_threshold :: vtkImageThreshold where
  "empty_threshold = segment_data (load_nifti Map.empty ''missing.nii.gz'') 30 60"

text \<open>Two images of two voxels, stored with a flipped direction matrix, a spacing of 2
  and an origin away from zero. The first lies within \<open>[0, 255]\<close>, the second
  does not.\<close>

definition dim_voxels :: sitk_image where
  "dim_voxels = \<lparr>pixels = [Fin 0, Fin 1], image_size = [1, 1, 2], pixel_type = sitkFloat32,
     direction = [-1, 0, 0, 0, -1, 0, 0, 0, -1], spacing = [2, 2, 2], origin = [5, 5, 5]\<rparr>"

definition bright_voxels :: sitk_image where
  "bright_voxels = \<lparr>pixels = [Fin 0, Fin 510], image_size = [1, 1, 2], pixel_type = sitkFloat32,
     direction = [-1, 0, 0, 0, -1, 0, 0, 0, -1], spacing = [2, 2, 2], origin = [5, 5, 5]\<rparr>"





text \<open>A file system that holds the out-of-range image.\<close>

definition bright_fs :: "sitk_image filesystem" where
  "bright_fs = [''preprocessed_t1.nii.gz'' \<mapsto> File bright_voxels]"

section \<open>Properties\<close>

subsection \<open>Mapping fMRI scalars onto the surface\<close>





subsection \<open>Thresholding\<close>

lemma thr_output_segment_data:
  "thr_output (segment_data reader lower upper) =
     (reader_output reader)\<lparr>image_scalars :=
        (case image_scalars (reader_output reader) of
           None \<Rightarrow> None
         | Some a \<Rightarrow> Some (a\<lparr>tuples := map (\<lambda>v. if lower \<le> v \<and> v \<le> upper then 1 else 0) (tuples a)\<rparr>))\<rparr>"
  by (simp add: segment_data_def Let_def Update_def SetOutValue_def ReplaceOutOn_def
      SetInValue_def ReplaceInOn_def ThresholdBetween_def SetInputConnection_def
      vtkImageThreshold_new_def threshold_image_def threshold_voxel_def [abs_def] split: option.split)





subsection \<open>Missing input files\<close>

text \<open>
  Claim C3, as stated, at a path that is not on the file system: \<open>visualize_t1\<close>
  prints the report of \<open>validate_file\<close> and returns; it raises nothing.
\<close>

theorem visualize_t1_missing_path_returns:
  "(Map.empty :: unit filesystem) ''missing.nii.gz'' = None
   \<and> visualize_t1 (\<lambda>c. Inr ()) (Map.empty :: unit filesystem) ''missing.nii.gz''
        = (Inr (), [''[ERROR] File not found: missing.nii.gz''])
   \<and> fst (visualize_t1 (\<lambda>c. Inr ()) (Map.empty :: unit filesystem) ''missing.nii.gz'')
        \<noteq> Inl (FileNotFoundError ''[ERROR] File not found: missing.nii.gz'')"
  by (simp add: visualize_t1_def validate_file_def os_path_isfile_def)

text \<open>
  Claim C3, amended. For a path that does not exist, \<open>load_t1_image\<close>,
  \<open>load_fmri_image\<close>, \<open>preprocess_t1\<close> and \<open>preprocess_t1_with_validation\<close>
  raise \<open>FileNotFoundError\<close>; \<open>validate_file\<close> prints
  "[ERROR] File not found: path" and returns \<open>False\<close>, and \<open>visualize_t1\<close>,
  \<open>visualize_fmri\<close> and \<open>visualize_eeg\<close> then return without raising.
\<close>

theorem missing_path_file_not_found_or_report:
  assumes "vfs file_path = None" and "sfs file_path = None" and "nfs file_path = None"
  shows "load_t1_image vfs file_path
           = Inl (FileNotFoundError (''[ERROR] File not found: '' @ file_path))
       \<and> load_fmri_image vfs file_path
           = Inl (FileNotFoundError (''[ERROR] fMRI file not found: '' @ file_path))
       \<and> preprocess_t1 sitk sfs file_path output_path domain_sigma range_sigma normalize'
           = Inl (FileNotFoundError (''[ERROR] File not found: '' @ file_path))
       \<and> preprocess_t1_with_validation sitk sfs file_path output_path domain_sigma range_sigma normalize'
           = Inl (FileNotFoundError (''[ERROR] File not found: '' @ file_path))
       \<and> validate_file nfs file_path = (False, [''[ERROR] File not found: '' @ file_path])
       \<and> visualize_t1 plot_t1 nfs file_path = (Inr (), [''[ERROR] File not found: '' @ file_path])
       \<and> visualize_fmri plot_fmri nfs file_path = (Inr (), [''[ERROR] File not found: '' @ file_path])
       \<and> visualize_eeg plot_eeg nfs file_path = (Inr (), [''[ERROR] File not found: '' @ file_path])"
  using assms
  by (simp add: load_t1_image_def load_fmri_image_def preprocess_t1_def
      preprocess_t1_with_validation_def validate_file_def visualize_t1_def visualize_fmri_def
      visualize_eeg_def os_path_exists_def os_path_isfile_def)

theorem missing_path_file_not_found_or_report_witness:
  "(Map.empty :: vtk_file filesystem) ''missing.nii.gz'' = None
   \<and> load_t1_image Map.empty ''missing.nii.gz''
        = Inl (FileNotFoundError ''[ERROR] File not found: missing.nii.gz'')
   \<and> load_fmri_image Map.empty ''missing.nii.gz''
        = Inl (FileNotFoundError ''[ERROR] fMRI file not found: missing.nii.gz'')
   \<and> preprocess_t1 no_filters Map.empty ''missing.nii.gz'' ''out.nii.gz'' 0.1 20 True
        = Inl (FileNotFoundError ''[ERROR] File not found: missing.nii.gz'')
   \<and> visualize_eeg (\<lambda>c :: unit. Inr ()) Map.empty ''missing.nii.gz''
        = (Inr (), [''[ERROR] File not found: missing.nii.gz''])"
  using missing_path_file_not_found_or_report
    [of Map.empty "''missing.nii.gz''" Map.empty Map.empty no_filters "''out.nii.gz''" "0.1" 20 True
        "\<lambda>c :: unit. Inr ()" "\<lambda>c :: unit. Inr ()" "\<lambda>c :: unit. Inr ()"]
  by simp

subsection \<open>The preprocessing chain\<close>

text \<open>
  Claim C4. The image that \<open>preprocess_t1\<close> writes does not depend on the adaptive
  histogram equalization: whatever filter stands in that place, the outcome is the same.
  The bilateral smoothing reads \<open>corrected_image\<close>, not
  \<open>contrast_enhanced_image\<close>.
\<close>

theorem preprocess_t1_discards_histogram_equalization:
  "preprocess_t1 (sitk\<lparr>AdaptiveHistogramEqualization := f\<rparr>) fs file_path output_path
       domain_sigma range_sigma normalize'
     = preprocess_t1 sitk fs file_path output_path domain_sigma range_sigma normalize'"
  by (simp add: preprocess_t1_def Let_def split: sum.split)

text \<open>
  Claim C8. With \<open>normalize=False\<close>, \<open>preprocess_t1\<close> has the same outcome as
  \<open>preprocess_t1_with_validation\<close> on the same arguments (whatever the latter's
  \<open>normalize\<close> flag, which it never reads): the same exception, or the same file
  system with the same image written to \<open>output_path\<close>.
\<close>

theorem preprocess_t1_without_normalize_eq_with_validation:
  "preprocess_t1 sitk fs file_path output_path domain_sigma range_sigma False
     = preprocess_t1_with_validation sitk fs file_path output_path domain_sigma range_sigma normalize'"
  by (simp add: preprocess_t1_def preprocess_t1_with_validation_def Let_def split: sum.split)

subsection \<open>Surface generation and export\<close>

text \<open>
  Claim C6. \<open>generate_surface\<close> raises exactly when the marching-cubes output has no
  points, the exception is then a \<open>ValueError\<close>, and otherwise the function returns
  that output.
\<close>

theorem generate_surface_error_iff_no_points:
  "((\<exists>msg. generate_surface vtk threshold isovalue = Inl (ValueError msg))
      \<longleftrightarrow> GetNumberOfPoints (vtkMarchingCubes vtk (thr_output threshold) isovalue) = 0)
   \<and> ((\<exists>e. generate_surface vtk threshold isovalue = Inl e)
      \<longleftrightarrow> GetNumberOfPoints (vtkMarchingCubes vtk (thr_output threshold) isovalue) = 0)
   \<and> ((generate_surface vtk threshold isovalue
         = Inr (vtkMarchingCubes vtk (thr_output threshold) isovalue))
      \<longleftrightarrow> GetNumberOfPoints (vtkMarchingCubes vtk (thr_output threshold) isovalue) \<noteq> 0)"
  by (simp add: generate_surface_def Let_def)

theorem generate_surface_error_iff_no_points_witness:
  "generate_surface toy_vtk toy_threshold 0.6
     = Inr \<lparr>points = [(1, 0, 0)], polys = [], point_scalars = None\<rparr>
   \<and> generate_surface toy_vtk empty_threshold 0.6
     = Inl (ValueError ''[ERROR] No surface was generated! Check thresholds or isovalue.'')"
  using generate_surface_error_iff_no_points [of toy_vtk toy_threshold "0.6"]
    generate_surface_error_iff_no_points [of toy_vtk empty_threshold "0.6"]
  by (simp add: generate_surface_def GetNumberOfPoints_def toy_vtk_def toy_threshold_def
      empty_threshold_def thr_output_segment_data scalar_values_def voxel45_def load_nifti_def
      vtkNIFTIImageReader_read_def empty_image_def)



subsection \<open>Missing scalar data\<close>











subsection \<open>Intensity normalization\<close>











text \<open>Without the hypothesis on the image the division is 0 / 0: a constant image out of
  range comes back as an image of \<open>NaN\<close>.\<close>

lemma check_and_normalize_intensity_constant_image:
  "map_sum id pixels
     (check_and_normalize_intensity
        (img\<lparr>pixels := [Fin 300, Fin 300]\<rparr>) 0 255) = Inr [NaN, NaN]"
  by (simp add: check_and_normalize_intensity_def GetArrayFromImage_def GetImageFromArray_def Let_def)

subsection \<open>What normalization keeps and what it resets\<close>

lemma identity_direction_3: "identity_direction 3 = [1, 0, 0, 0, 1, 0, 0, 0, 1]"
  by (simp add: identity_direction_def upt_rec)

lemma check_and_normalize_intensity_in_range:
  assumes "ndarray_min (pixels img) = Inr min_int" and "ndarray_max (pixels img) = Inr max_int"
    and "np_le (Fin lower_bound) min_int" and "np_le max_int (Fin upper_bound)"
  shows "check_and_normalize_intensity img lower_bound upper_bound = Inr img"
  using assms by (simp add: check_and_normalize_intensity_def GetArrayFromImage_def)

lemma check_and_normalize_intensity_out_of_range:
  assumes "ndarray_min (pixels img) = Inr min_int" and "ndarray_max (pixels img) = Inr max_int"
    and "\<not> (np_le (Fin lower_bound) min_int \<and> np_le max_int (Fin upper_bound))"
  shows "check_and_normalize_intensity img lower_bound upper_bound
     = Inr (GetImageFromArray
         (map (\<lambda>x. np_add (np_mul (np_div (np_sub x min_int) (np_sub max_int min_int))
                       (Fin (upper_bound - lower_bound))) (Fin lower_bound)) (pixels img))
         (image_size img))"
  using assms by (simp add: check_and_normalize_intensity_def GetArrayFromImage_def Let_def)

lemma check_orientation_default_3d:
  assumes "direction n = identity_direction 3"
  shows "check_orientation n ''axial'' = Inr True"
  using assms by (simp add: check_orientation_def tuple_index_def identity_direction_3)

text \<open>
  Claim C10. When the intensities already lie within the bounds,
  \<open>check_and_normalize_intensity\<close> returns the input image itself. When it
  normalizes, the result is built by \<open>GetImageFromArray\<close> from the voxel array and
  the shape alone: its direction is the identity, its spacing 1 and its origin 0, it is the
  same whatever direction, spacing and origin the input had, and for a volume (three
  axes) the axial orientation check of the result succeeds. The main block hands the
  image returned by the normalization to \<open>check_orientation\<close> and to the edge
  check.
\<close>

theorem check_and_normalize_intensity_frame:
  "(ndarray_min (pixels img) = Inr min_int \<and> ndarray_max (pixels img) = Inr max_int
      \<and> np_le (Fin lower_bound) min_int \<and> np_le max_int (Fin upper_bound)
     \<longrightarrow> check_and_normalize_intensity img lower_bound upper_bound = Inr img)
   \<and> (ndarray_min (pixels img) = Inr min_int \<and> ndarray_max (pixels img) = Inr max_int
      \<and> \<not> (np_le (Fin lower_bound) min_int \<and> np_le max_int (Fin upper_bound))
     \<longrightarrow> (\<exists>out. check_and_normalize_intensity img lower_bound upper_bound = Inr out
            \<and> out = GetImageFromArray (pixels out) (image_size img)
            \<and> direction out = identity_direction (length (image_size img))
            \<and> spacing out = replicate (length (image_size img)) 1
            \<and> origin out = replicate (length (image_size img)) 0
            \<and> check_and_normalize_intensity (img\<lparr>direction := dir', spacing := spc', origin := org'\<rparr>)
                  lower_bound upper_bound = Inr out
            \<and> (length (image_size img) = 3 \<longrightarrow> check_orientation out ''axial'' = Inr True)))
   \<and> (fs t1_file_path = Some (File img)
      \<and> check_and_normalize_intensity img 0 255 = Inr normalized_image
     \<longrightarrow> validate_t1_main check_edge_clarity fs t1_file_path
           = (case check_orientation normalized_image ''axial'' of
                Inl e \<Rightarrow> Inl e
              | Inr is_oriented_correctly \<Rightarrow>
                  (case check_edge_clarity normalized_image of
                     Inl e \<Rightarrow> Inl e
                   | Inr are_edges_clear \<Rightarrow> Inr (is_oriented_correctly, are_edges_clear))))"
proof (intro conjI impI)
  assume "ndarray_min (pixels img) = Inr min_int \<and> ndarray_max (pixels img) = Inr max_int
      \<and> np_le (Fin lower_bound) min_int \<and> np_le max_int (Fin upper_bound)"
  then show "check_and_normalize_intensity img lower_bound upper_bound = Inr img"
    by (simp add: check_and_normalize_intensity_in_range)
next
  assume a: "ndarray_min (pixels img) = Inr min_int \<and> ndarray_max (pixels img) = Inr max_int
      \<and> \<not> (np_le (Fin lower_bound) min_int \<and> np_le max_int (Fin upper_bound))"
  let ?arr = "map (\<lambda>x. np_add (np_mul (np_div (np_sub x min_int) (np_sub max_int min_int))
                       (Fin (upper_bound - lower_bound))) (Fin lower_bound)) (pixels img)"
  let ?out = "GetImageFromArray ?arr (image_size img)"
  let ?img' = "img\<lparr>direction := dir', spacing := spc', origin := org'\<rparr>"
  have r: "check_and_normalize_intensity img lower_bound upper_bound = Inr ?out"
    using a by (simp add: check_and_normalize_intensity_out_of_range)
  have r': "check_and_normalize_intensity ?img' lower_bound upper_bound = Inr ?out"
    using a check_and_normalize_intensity_out_of_range [of ?img' min_int max_int lower_bound upper_bound]
    by simp
  have ax: "length (image_size img) = 3 \<longrightarrow> check_orientation ?out ''axial'' = Inr True"
    by (simp add: check_orientation_default_3d GetImageFromArray_def)
  show "\<exists>out. check_and_normalize_intensity img lower_bound upper_bound = Inr out
            \<and> out = GetImageFromArray (pixels out) (image_size img)
            \<and> direction out = identity_direction (length (image_size img))
            \<and> spacing out = replicate (length (image_size img)) 1
            \<and> origin out = replicate (length (image_size img)) 0
            \<and> check_and_normalize_intensity ?img' lower_bound upper_bound = Inr out
            \<and> (length (image_size img) = 3 \<longrightarrow> check_orientation out ''axial'' = Inr True)"
    using r r' ax by (intro exI [of _ ?out]) (simp add: GetImageFromArray_def)
next
  assume "fs t1_file_path = Some (File img)
      \<and> check_and_normalize_intensity img 0 255 = Inr normalized_image"
  then show "validate_t1_main check_edge_clarity fs t1_file_path
           = (case check_orientation normalized_image ''axial'' of
                Inl e \<Rightarrow> Inl e
              | Inr is_oriented_correctly \<Rightarrow>
                  (case check_edge_clarity normalized_image of
                     Inl e \<Rightarrow> Inl e
                   | Inr are_edges_clear \<Rightarrow> Inr (is_oriented_correctly, are_edges_clear)))"
    by (simp add: validate_t1_main_def ReadImage_def)
qed

theorem check_and_normalize_intensity_frame_witness:
  "check_and_normalize_intensity dim_voxels 0 255 = Inr dim_voxels
   \<and> map_sum id direction (check_and_normalize_intensity bright_voxels 0 255)
       = Inr [1, 0, 0, 0, 1, 0, 0, 0, 1]
   \<and> direction bright_voxels = [-1, 0, 0, 0, -1, 0, 0, 0, -1]
   \<and> check_orientation bright_voxels ''axial'' = Inr False
   \<and> validate_t1_main (\<lambda>n. Inr True) bright_fs ''preprocessed_t1.nii.gz'' = Inr (True, True)"
proof -
  have dim: "ndarray_min (pixels dim_voxels) = Inr (Fin 0) \<and> ndarray_max (pixels dim_voxels) = Inr (Fin 1)
      \<and> np_le (Fin 0) (Fin 0) \<and> np_le (Fin 1) (Fin 255)"
    by (simp add: dim_voxels_def)
  have a: "check_and_normalize_intensity dim_voxels 0 255 = Inr dim_voxels"
    using check_and_normalize_intensity_frame
      [where img = dim_voxels and min_int = "Fin 0" and max_int = "Fin 1"
         and lower_bound = 0 and upper_bound = 255] dim
    by blast
  have bright: "ndarray_min (pixels bright_voxels) = Inr (Fin 0)
      \<and> ndarray_max (pixels bright_voxels) = Inr (Fin 510)
      \<and> \<not> (np_le (Fin 0) (Fin 0) \<and> np_le (Fin 510) (Fin 255))"
    by (simp add: bright_voxels_def)
  have three: "length (image_size bright_voxels) = 3"
    by (simp add: bright_voxels_def)
  obtain out where out: "check_and_normalize_intensity bright_voxels 0 255 = Inr out"
    and dir: "direction out = identity_direction (length (image_size bright_voxels))"
    and ax: "length (image_size bright_voxels) = 3 \<longrightarrow> check_orientation out ''axial'' = Inr True"
    using check_and_normalize_intensity_frame
      [where img = bright_voxels and min_int = "Fin 0" and max_int = "Fin 510"
         and lower_bound = 0 and upper_bound = 255] bright
    by blast
  have b: "map_sum id direction (check_and_normalize_intensity bright_voxels 0 255)
       = Inr [1, 0, 0, 0, 1, 0, 0, 0, 1]"
    using out dir three by (simp add: identity_direction_3)
  have f: "bright_fs ''preprocessed_t1.nii.gz'' = Some (File bright_voxels)"
    by (simp add: bright_fs_def)
  have m: "validate_t1_main (\<lambda>n. Inr True) bright_fs ''preprocessed_t1.nii.gz'' = Inr (True, True)"
    using check_and_normalize_intensity_frame
      [where img = bright_voxels and fs = bright_fs and ?t1_file_path = "''preprocessed_t1.nii.gz''"
         and normalized_image = out and check_edge_clarity = "\<lambda>n. Inr True"] f out ax three
    by simp
  have c: "direction bright_voxels = [-1, 0, 0, 0, -1, 0, 0, 0, -1]
      \<and> check_orientation bright_voxels ''axial'' = Inr False"
    by (simp add: bright_voxels_def check_orientation_def tuple_index_def)
  from a b c m show ?thesis by simp
qed

end
